theory Spec2Isabelle
  imports Complex_Main "HOL-Library.Sublist" "HOL-Library.Multiset" "HOL-Library.Char_ord"
    "HOL-Library.List_Lexorder" "HOL-Library.Product_Lexorder"
begin

section \<open>Data model\<close>

text \<open>
  The repository consists of \<^verbatim>\<open>utils.py\<close> (table transformations written with pandas)
  and \<^verbatim>\<open>config.py\<close> (reference data). A table is a list of rows; a missing cell
  (\<^verbatim>\<open>NaN\<close>, \<^verbatim>\<open>NaT\<close>, or a column that has not been created yet) is \<open>None\<close>. Every
  exception the Python can raise is a value \<open>Inl e\<close>. Column-name keyword arguments
  (\<^verbatim>\<open>date_col\<close>, \<^verbatim>\<open>desc_col\<close>, \<^verbatim>\<open>ward_col\<close>) are taken at their defaults. The library
  calls are read with the semantics of the pandas releases the code was written for
  (1.x and 2.x): a text column has dtype \<^verbatim>\<open>object\<close>, and a missing text cell is \<^verbatim>\<open>NaN\<close>.
\<close>

datatype error = ValueError | KeyError | TypeError

text \<open>A calendar date as pandas' \<^verbatim>\<open>Timestamp\<close> exposes it (\<^verbatim>\<open>.year\<close>, \<^verbatim>\<open>.month\<close>, \<^verbatim>\<open>.day\<close>).\<close>

record timestamp =
  ts_year :: int
  ts_month :: nat
  ts_day :: nat

text \<open>
  One incident record. The first four columns come from the spreadsheet, the others are
  added by \<^verbatim>\<open>add_time_dimensions\<close> and \<^verbatim>\<open>group_animals\<close>. Any further column of the
  spreadsheet lives in the record's extension.
\<close>

record row =
  Incdate :: "timestamp option"
  Incident_Detail :: "string option"
  Ward :: "string option"
  District :: "string option"
  fin_year :: "int option"
  month :: "timestamp option"
  week :: "timestamp option"
  weekday :: "nat option"
  BH_or_WE :: "string option"
  animal :: "string option"

section \<open>Temporal enrichment: \<^verbatim>\<open>add_time_dimensions\<close>\<close>

text \<open>
  \<^verbatim>\<open>to_period('Q-MAR').dt.qyear\<close>: pandas labels a quarterly period by the fiscal year it
  belongs to, and a fiscal year by the calendar year in which it ends. For a fiscal year
  ending in month \<open>to_end\<close> pandas computes: \<^verbatim>\<open>month -= to_end; if month <= 0: month += 12
  else: year += 1\<close> (nothing is shifted when \<open>to_end = 12\<close>).
\<close>

definition qyear :: "nat \<Rightarrow> timestamp \<Rightarrow> int" where
  "qyear to_end ts =
     (if to_end \<noteq> 12 \<and> 0 < int (ts_month ts) - int to_end then ts_year ts + 1 else ts_year ts)"

text \<open>
  The calendar facts the function takes from libraries: pandas' \<^verbatim>\<open>day_of_week\<close>
  (Monday is 0), the start of the weekly period, and membership in the England holiday
  calendar of the \<^verbatim>\<open>holidays\<close> package.
\<close>

record calendar =
  day_of_week :: "timestamp \<Rightarrow> nat"
  week_start :: "timestamp \<Rightarrow> timestamp"
  eng_hol :: "timestamp \<Rightarrow> bool"

definition bh_or_we :: "calendar \<Rightarrow> timestamp option \<Rightarrow> string" where
  "bh_or_we cal d =
     (let flag = ''No'';
          flag = (if (case d of None \<Rightarrow> False | Some ts \<Rightarrow> day_of_week cal ts \<in> {5, 6})
                  then ''Weekend'' else flag);
          flag = (if (case d of None \<Rightarrow> False | Some ts \<Rightarrow> eng_hol cal ts)
                  then ''Bank Holiday'' else flag)
      in flag)"

text \<open>
  Lines 18 to 21 and 30 to 32, on one row. The fields of a period are integers, and
  pandas gives the field of a missing period (\<^verbatim>\<open>NaT\<close>) the value \<open>-1\<close>: the fiscal year of
  a row without a date is \<open>-1 - 1\<close>. The start times of the monthly and weekly periods of
  a missing date are missing, and so is its day of the week.
\<close>

definition time_dimensions :: "calendar \<Rightarrow> 'a row_scheme \<Rightarrow> 'a row_scheme" where
  "time_dimensions cal r =
     r\<lparr>fin_year := Some ((case Incdate r of None \<Rightarrow> - 1 | Some ts \<Rightarrow> qyear 3 ts) - 1),
       month := map_option (\<lambda>ts. ts\<lparr>ts_day := 1\<rparr>) (Incdate r),
       week := map_option (week_start cal) (Incdate r),
       weekday := map_option (day_of_week cal) (Incdate r),
       BH_or_WE := Some (bh_or_we cal (Incdate r))\<rparr>"

text \<open>
  \<^verbatim>\<open>range(to_prep[date_col].min().year, ...)\<close>: the minimum skips missing dates; when no
  row has a date it is \<^verbatim>\<open>NaT\<close>, whose \<^verbatim>\<open>.year\<close> is a float \<^verbatim>\<open>nan\<close>, and \<^verbatim>\<open>range\<close> raises
  \<^verbatim>\<open>TypeError\<close>.
\<close>

definition add_time_dimensions ::
  "calendar \<Rightarrow> 'a row_scheme list \<Rightarrow> error + 'a row_scheme list" where
  "add_time_dimensions cal to_prep =
     (if list_all (\<lambda>r. Incdate r = None) to_prep then Inl TypeError
      else Inr (map (time_dimensions cal) to_prep))"

section \<open>Animal classifier: \<^verbatim>\<open>group_animals\<close>\<close>











section \<open>Ward normalizer: \<^verbatim>\<open>modify_wards\<close>\<close>

text \<open>
  \<^verbatim>\<open>s.replace(old, new)\<close> for a literal pattern, as Python and pandas' \<^verbatim>\<open>str.replace\<close>
  perform it: the string is scanned from the left, every occurrence found is replaced and
  the scan continues behind it (the occurrences replaced do not overlap). An empty
  pattern matches before every character and at the end.
\<close>

fun str_replace :: "string \<Rightarrow> string \<Rightarrow> string \<Rightarrow> string" where
  "str_replace old new [] = (if old = [] then new else [])"
| "str_replace old new (c # cs) =
     (if old = [] then new @ c # str_replace old new cs
      else if prefix old (c # cs) then new @ str_replace old new (drop (length old) (c # cs))
      else c # str_replace old new cs)"

text \<open>Line 52: \<^verbatim>\<open>to_prep.loc[:, ward_col] = to_prep.Ward.str.replace(' Ward', '')\<close>; a missing
  ward name stays missing. The source reads the column \<^verbatim>\<open>Ward\<close> and writes the column
  \<^verbatim>\<open>ward_col\<close>, which is \<^verbatim>\<open>Ward\<close> by default.\<close>

definition strip_ward :: "'a row_scheme list \<Rightarrow> 'a row_scheme list" where
  "strip_ward to_prep = map (\<lambda>r. r\<lparr>Ward := map_option (str_replace '' Ward'' '''') (Ward r)\<rparr>) to_prep"

text \<open>One assignment \<^verbatim>\<open>to_prep.loc[to_prep.Ward.isin(olds), ward_col] = new\<close> (or
  \<^verbatim>\<open>to_prep.Ward == old\<close> for a single name); a missing ward name compares unequal.\<close>

definition loc_set_ward :: "string list \<Rightarrow> string \<Rightarrow> 'a row_scheme list \<Rightarrow> 'a row_scheme list" where
  "loc_set_ward olds new to_prep =
     map (\<lambda>r. if Ward r \<in> Some ` set olds then r\<lparr>Ward := Some new\<rparr> else r) to_prep"

text \<open>The assignments of lines 53 to 77, in the order of the source.\<close>

definition ward_renames :: "(string list \<times> string) list" where
  "ward_renames =
    [([''St. Peter's'', ''St Peter's''], ''St Peters''),
     ([''St. Michael's''], ''St Michael's''),
     ([''St. Pauls''], ''St Pauls''),
     ([''Bushbury South and Low Hill''], ''Bushbury South & Low Hill''),
     ([''Bournville''], ''Bournville & Cotteridge''),
     ([''Spring Vale''], ''Ettingshall South & Spring Vale''),
     ([''Longbridge''], ''Longbridge & West Heath''),
     ([''Sparkbrook''], ''Sparkbrook & Balsall Heath East''),
     ([''Hodge Hill''], ''Bromford & Hodge Hill''),
     ([''Moseley and Kings Heath''], ''Moseley''),
     ([''Brandwood''], ''Brandwood & King's Heath''),
     ([''Soho''], ''Soho & Jewellery Quarter''),
     ([''Bilston East''], ''Bilston South''),
     ([''Lozells and East Handsworth''], ''Lozells''),
     ([''Ettingshall''], ''Ettingshall North''),
     ([''Stechford and Yardley North''], ''Yardley West & Stechford''),
     ([''Washwood Heath''], ''Bromford & Hodge Hill''),
     ([''Sutton New Hall''], ''Sutton Walmley & Minworth''),
     ([''Springfield''], ''Hall Green North''),
     ([''Hall Green''], ''Hall Green South''),
     ([''Kings Norton''], ''King's Norton South''),
     ([''Tyburn''], ''Erdington''),
     ([''Weoley'', ''Selly Oak''], ''Weoley & Selly Oak'')]"

text \<open>The whole function: the removal of \<open>'' Ward''\<close>, the renames one statement after the other
  (each reads the ward column the previous one wrote), and the district correction of
  line 79.\<close>

definition modify_wards :: "'a row_scheme list \<Rightarrow> 'a row_scheme list" where
  "modify_wards to_prep =
     (let to_prep = strip_ward to_prep;
          to_prep = foldl (\<lambda>t (olds, new). loc_set_ward olds new t) to_prep ward_renames;
          to_prep = map (\<lambda>r. if Ward r = Some ''Tipton Green''
                               then r\<lparr>District := Some ''Sandwell''\<rparr> else r) to_prep
      in to_prep)"

section \<open>Text n-gram helper: \<^verbatim>\<open>ngram_counts\<close>\<close>






section \<open>Geo-census joiner: \<^verbatim>\<open>combine_maps_w_data\<close>\<close>

subsection \<open>Numbers\<close>

text \<open>
  Incident counts are whole numbers (pandas holds them as floats once a missing value
  has appeared in the column; whole numbers of this size are exact there). The
  population and the rate are floats. A float is modelled by its value: a rational
  number, an infinity or \<open>NaN\<close>; rounding is not modelled, so the finite results below are
  the exact ones that the floating-point results approximate. Zero is the positive
  zero, the only one that counts and populations give.
\<close>

datatype fl = Fin rat | PInf | NInf | NaN

fun fl_sign :: "fl \<Rightarrow> int" where
  "fl_sign (Fin a) = (if a < 0 then - 1 else if a = 0 then 0 else 1)"
| "fl_sign PInf = 1"
| "fl_sign NInf = - 1"
| "fl_sign NaN = 0"

definition fl_signed_inf :: "int \<Rightarrow> fl" where
  "fl_signed_inf s = (if s = 0 then NaN else if 0 < s then PInf else NInf)"

text \<open>Multiplication and division as IEEE 754 and numpy define them on the special
  values: \<open>NaN\<close> propagates, \<open>0 * inf\<close>, \<open>0 / 0\<close> and \<open>inf / inf\<close> are \<open>NaN\<close>, a non-zero
  number divided by zero is an infinity of its sign. pandas' \<^verbatim>\<open>Series.div\<close> and
  \<^verbatim>\<open>Series.mul\<close> raise no exception on them.\<close>

fun fl_mul :: "fl \<Rightarrow> fl \<Rightarrow> fl" where
  "fl_mul NaN y = NaN"
| "fl_mul x NaN = NaN"
| "fl_mul (Fin a) (Fin b) = Fin (a * b)"
| "fl_mul x y = fl_signed_inf (fl_sign x * fl_sign y)"

fun fl_div :: "fl \<Rightarrow> fl \<Rightarrow> fl" where
  "fl_div NaN y = NaN"
| "fl_div x NaN = NaN"
| "fl_div (Fin a) (Fin b) = (if b = 0 then fl_signed_inf (fl_sign (Fin a)) else Fin (a / b))"
| "fl_div (Fin a) y = Fin 0"
| "fl_div x (Fin b) = fl_signed_inf (fl_sign x * (if b < 0 then - 1 else 1))"
| "fl_div x y = NaN"

text \<open>\<^verbatim>\<open>.fillna(0)\<close> on a float cell.\<close>

definition fillna0 :: "fl \<Rightarrow> fl" where
  "fillna0 x = (if x = NaN then Fin 0 else x)"

subsection \<open>The incident pivot (lines 109 to 113)\<close>

text \<open>
  \<^verbatim>\<open>groupby(['fin_year', 'District', 'Ward']).size()\<close>: the rows in which one of the three
  keys is missing belong to no group; the size of a group is the number of rows with
  its key.
\<close>

definition group_keys :: "'a row_scheme list \<Rightarrow> (int \<times> string \<times> string) list" where
  "group_keys inc_data =
     List.map_filter
       (\<lambda>r. case (fin_year r, District r, Ward r) of
               (Some y, Some d, Some w) \<Rightarrow> Some (y, d, w)
             | _ \<Rightarrow> None)
       inc_data"

text \<open>The columns that \<^verbatim>\<open>unstack('fin_year')\<close> makes: the fiscal years of the groups, in
  ascending order.\<close>

definition fin_years :: "'a row_scheme list \<Rightarrow> int list" where
  "fin_years inc_data = sort (remdups (map fst (group_keys inc_data)))"

record pivot_row =
  pv_District :: string
  pv_Ward :: string
  pv_years :: "(int \<times> nat) list"
  pv_Total_Incidents :: nat

text \<open>
  One row for each pair of district and ward that has a group, in the order of the
  index; in each year column the size of the group, and 0 where \<^verbatim>\<open>unstack\<close> left a
  missing value (\<^verbatim>\<open>.fillna(0)\<close>); \<^verbatim>\<open>Total_Incidents\<close> is the sum of the row over the year
  columns; \<^verbatim>\<open>reset_index(level=0)\<close> makes the district a column and leaves the ward as
  the index.
\<close>

definition pivot :: "'a row_scheme list \<Rightarrow> pivot_row list" where
  "pivot inc_data =
     (let keys = group_keys inc_data;
          years = fin_years inc_data
      in map (\<lambda>(d, w).
                let counts = map (\<lambda>y. (y, count_list keys (y, d, w))) years
                in \<lparr>pv_District = d, pv_Ward = w, pv_years = counts,
                    pv_Total_Incidents = sum_list (map snd counts)\<rparr>)
             (sort (remdups (map snd keys))))"

subsection \<open>The join on the boundary table (lines 105 to 118)\<close>

text \<open>A row of \<^verbatim>\<open>kml_data\<close>: the ward name and the geometry of one boundary file.\<close>

record 'g kml_row =
  kml_Ward :: string
  kml_geometry :: 'g

record 'g joined_row =
  j_Ward :: string
  j_geometry :: 'g
  j_District :: "string option"
  j_years :: "(int \<times> nat option) list"
  j_Total_Incidents :: "nat option"

text \<open>
  \<^verbatim>\<open>kml_data.join(..., how='left', on='Ward')\<close>: a boundary row is paired with every pivot
  row of its ward name; a boundary row without incidents is kept once, with missing
  values in the columns of the pivot.
\<close>

definition join_incidents :: "int list \<Rightarrow> pivot_row list \<Rightarrow> 'g kml_row \<Rightarrow> 'g joined_row list" where
  "join_incidents years pv k =
     (case filter (\<lambda>p. pv_Ward p = kml_Ward k) pv of
        [] \<Rightarrow> [\<lparr>j_Ward = kml_Ward k, j_geometry = kml_geometry k, j_District = None,
                j_years = map (\<lambda>y. (y, None)) years, j_Total_Incidents = None\<rparr>]
      | ps \<Rightarrow> map (\<lambda>p. \<lparr>j_Ward = kml_Ward k, j_geometry = kml_geometry k,
                         j_District = Some (pv_District p),
                         j_years = map (\<lambda>(y, c). (y, Some c)) (pv_years p),
                         j_Total_Incidents = Some (pv_Total_Incidents p)\<rparr>) ps)"

subsection \<open>Merging the rows of a ward (line 126)\<close>

text \<open>
  \<^verbatim>\<open>dissolve(by='Ward', aggfunc='sum', numeric_only=False)\<close>: one row for each ward name,
  in ascending order of the names; the geometries of the ward are merged by the union
  of the geometry library (a parameter here), and every other column is summed over
  the rows of the ward. The sum of a number column skips missing values and is 0 when
  all are missing. The sum of the district column joins the district names that are
  present; where none is, pandas leaves the number 0, which is \<open>None\<close> here.
\<close>

definition nan_sum :: "nat option list \<Rightarrow> nat" where
  "nan_sum xs = sum_list (map (\<lambda>x. case x of None \<Rightarrow> 0 | Some v \<Rightarrow> v) xs)"

definition str_sum :: "string option list \<Rightarrow> string option" where
  "str_sum xs = (case List.map_filter id xs of [] \<Rightarrow> None | ss \<Rightarrow> Some (concat ss))"

definition year_cell :: "int \<Rightarrow> 'g joined_row \<Rightarrow> nat option" where
  "year_cell y j = (case map_of (j_years j) y of None \<Rightarrow> None | Some c \<Rightarrow> c)"

record 'g ward_row =
  w_Ward :: string
  w_geometry :: 'g
  w_District :: "string option"
  w_years :: "(int \<times> nat) list"
  w_Total_Incidents :: nat

definition dissolve :: "('g list \<Rightarrow> 'g) \<Rightarrow> int list \<Rightarrow> 'g joined_row list \<Rightarrow> 'g ward_row list" where
  "dissolve unary_union years js =
     map (\<lambda>w. let grp = filter (\<lambda>j. j_Ward j = w) js
               in \<lparr>w_Ward = w,
                   w_geometry = unary_union (map j_geometry grp),
                   w_District = str_sum (map j_District grp),
                   w_years = map (\<lambda>y. (y, nan_sum (map (year_cell y) grp))) years,
                   w_Total_Incidents = nan_sum (map j_Total_Incidents grp)\<rparr>)
         (sort (remdups (map j_Ward js)))"

subsection \<open>The census join and the rate (lines 138 to 160)\<close>

text \<open>
  \<^verbatim>\<open>census_data\<close> is indexed by ward name and has the column \<^verbatim>\<open>Observation\<close>. The left join
  pairs a ward with every census row of its name, and with a missing value when there is
  none.
\<close>

definition census_cells :: "(string \<times> fl) list \<Rightarrow> string \<Rightarrow> fl list" where
  "census_cells census_data w =
     (case map snd (filter (\<lambda>(cw, obs). cw = w) census_data) of [] \<Rightarrow> [NaN] | os \<Rightarrow> os)"

text \<open>A cell of a year column of the merged table.\<close>

definition year_count :: "int \<Rightarrow> (int \<times> nat) list \<Rightarrow> nat" where
  "year_count y cells = (case map_of cells y of None \<Rightarrow> 0 | Some c \<Rightarrow> c)"

text \<open>\<^verbatim>\<open>x[[2021, 2022]].sum(axis=1).div(x.Observation * 2).mul(10000)\<close> for one row.\<close>

definition rate :: "(int \<times> nat) list \<Rightarrow> fl \<Rightarrow> fl" where
  "rate cells obs =
     fl_mul (fl_div (Fin (of_nat (year_count 2021 cells + year_count 2022 cells)))
                    (fl_mul obs (Fin 2)))
            (Fin 10000)"

text \<open>A row of the result. The final \<^verbatim>\<open>rename\<close> changes the labels of the columns only;
  the record keeps the names the columns have before it.\<close>

record 'g map_row =
  map_Ward :: string
  map_geometry :: 'g
  map_District :: "string option"
  map_years :: "(int \<times> nat) list"
  Total_Incidents :: nat
  Observation :: fl
  inc_per_pop :: fl

definition with_census :: "(string \<times> fl) list \<Rightarrow> 'g ward_row \<Rightarrow> 'g map_row list" where
  "with_census census_data m =
     map (\<lambda>obs. \<lparr>map_Ward = w_Ward m, map_geometry = w_geometry m, map_District = w_District m,
                  map_years = w_years m, Total_Incidents = w_Total_Incidents m,
                  Observation = fillna0 obs, inc_per_pop = rate (w_years m) (fillna0 obs)\<rparr>)
         (census_cells census_data (w_Ward m))"

text \<open>
  The whole function. Selecting the columns \<^verbatim>\<open>[2021, 2022]\<close> raises \<^verbatim>\<open>KeyError\<close> when the
  incident data has no group in one of the two fiscal years. Ward names of the boundary
  table are present strings.
\<close>

definition combine_maps_w_data ::
  "('g list \<Rightarrow> 'g) \<Rightarrow> 'g kml_row list \<Rightarrow> 'a row_scheme list \<Rightarrow> (string \<times> fl) list \<Rightarrow>
     error + 'g map_row list" where
  "combine_maps_w_data unary_union kml_data inc_data census_data =
     (let years = fin_years inc_data;
          map_data = concat (map (join_incidents years (pivot inc_data)) kml_data);
          map_data = map (\<lambda>j. j\<lparr>j_Ward := str_replace [CHR 0x27] '''' (j_Ward j)\<rparr>) map_data;
          map_data = map (\<lambda>j. if sublist ''Ettingshall'' (j_Ward j)
                               then j\<lparr>j_Ward := ''Ettingshall''\<rparr> else j) map_data;
          map_data = dissolve unary_union years map_data;
          map_data = map (\<lambda>m. if w_Ward m \<in> {''Castle Vale'', ''Allens Cross''}
                               then m\<lparr>w_District := Some ''Birmingham''\<rparr> else m) map_data;
          map_data = map (\<lambda>m. if w_Ward m = ''Ettingshall''
                               then m\<lparr>w_District := Some ''Wolverhampton''\<rparr> else m) map_data
      in if 2021 \<in> set years \<and> 2022 \<in> set years
         then Inr (concat (map (with_census census_data) map_data))
         else Inl KeyError)"

section \<open>Row-wise views and example data\<close>


fun apply_renames :: "(string list \<times> string) list \<Rightarrow> string option \<Rightarrow> string option" where
  "apply_renames [] w = w"
| "apply_renames ((olds, new) # rules) w =
     apply_renames rules (if w \<in> Some ` set olds then Some new else w)"

definition modify_row :: "'a row_scheme \<Rightarrow> 'a row_scheme" where
  "modify_row r =
     (let w = apply_renames ward_renames (map_option (str_replace '' Ward'' '''') (Ward r))
      in r\<lparr>Ward := w,
           District := (if w = Some ''Tipton Green'' then Some ''Sandwell'' else District r)\<rparr>)"

text \<open>A row with every cell missing, to build concrete tables from, and the calendar
  facts about the two dates of the examples: 27 March 2020 and 10 April 2020 are Fridays,
  in the weeks starting on 23 March and on 6 April, and 10 April 2020 (Good Friday) is a
  bank holiday in England.\<close>

definition blank_row :: row where
  "blank_row = \<lparr>Incdate = None, Incident_Detail = None, Ward = None, District = None,
     fin_year = None, month = None, week = None, weekday = None, BH_or_WE = None,
     animal = None\<rparr>"

definition spring_2020 :: calendar where
  "spring_2020 =
     \<lparr>day_of_week = (\<lambda>ts. 4),
      week_start = (\<lambda>ts. if ts_month ts = 3 then \<lparr>ts_year = 2020, ts_month = 3, ts_day = 23\<rparr>
                          else \<lparr>ts_year = 2020, ts_month = 4, ts_day = 6\<rparr>),
      eng_hol = (\<lambda>ts. ts = \<lparr>ts_year = 2020, ts_month = 4, ts_day = 10\<rparr>)\<rparr>"



text \<open>
  A small run of \<^verbatim>\<open>combine_maps_w_data\<close>: four boundary rows, among them the two
  Ettingshall wards that the function merges and a ward without incidents; five incident
  records over the fiscal years 2020 to 2022; census figures for two wards, one of them
  zero, and none for Castle Vale. Geometries are stood for by labels, and their union
  by putting the labels together.
\<close>

definition example_inc :: "row list" where
  "example_inc =
     [blank_row\<lparr>fin_year := Some 2021, District := Some ''Wolverhampton'',
                 Ward := Some ''Ettingshall North''\<rparr>,
      blank_row\<lparr>fin_year := Some 2022, District := Some ''Wolverhampton'',
                 Ward := Some ''Ettingshall North''\<rparr>,
      blank_row\<lparr>fin_year := Some 2022, District := Some ''Wolverhampton'',
                 Ward := Some ''Ettingshall South & Spring Vale''\<rparr>,
      blank_row\<lparr>fin_year := Some 2020, District := Some ''Birmingham'',
                 Ward := Some ''Brandwood & King's Heath''\<rparr>,
      blank_row\<lparr>fin_year := Some 2021, District := Some ''Birmingham'',
                 Ward := Some ''Brandwood & King's Heath''\<rparr>]"

definition example_kml :: "string kml_row list" where
  "example_kml =
     [\<lparr>kml_Ward = ''Ettingshall South & Spring Vale'', kml_geometry = ''A''\<rparr>,
      \<lparr>kml_Ward = ''Castle Vale'', kml_geometry = ''B''\<rparr>,
      \<lparr>kml_Ward = ''Ettingshall North'', kml_geometry = ''C''\<rparr>,
      \<lparr>kml_Ward = ''Brandwood & King's Heath'', kml_geometry = ''D''\<rparr>]"

definition example_census :: "(string \<times> fl) list" where
  "example_census = [(''Ettingshall'', Fin 25000), (''Brandwood & Kings Heath'', Fin 0)]"

definition example_map :: "string map_row list" where
  "example_map =
     [\<lparr>map_Ward = ''Brandwood & Kings Heath'', map_geometry = ''D'',
       map_District = Some ''Birmingham'',
       map_years = [(2020, 1), (2021, 1), (2022, 0)], Total_Incidents = 2,
       Observation = Fin 0, inc_per_pop = PInf\<rparr>,
      \<lparr>map_Ward = ''Castle Vale'', map_geometry = ''B'',
       map_District = Some ''Birmingham'',
       map_years = [(2020, 0), (2021, 0), (2022, 0)], Total_Incidents = 0,
       Observation = Fin 0, inc_per_pop = NaN\<rparr>,
      \<lparr>map_Ward = ''Ettingshall'', map_geometry = ''AC'',
       map_District = Some ''Wolverhampton'',
       map_years = [(2020, 0), (2021, 1), (2022, 2)], Total_Incidents = 3,
       Observation = Fin 25000, inc_per_pop = Fin (3 / 5)\<rparr>]"

section \<open>Temporal enrichment: the fiscal year\<close>

text \<open>
  Claim C1. For every incident record with a valid date, \<^verbatim>\<open>add_time_dimensions\<close> assigns a
  fiscal year equal to the calendar year minus 1 when the month of the date is January,
  February or March, and equal to the calendar year when the month is April to December.
  The function returns (a table with a dated row has a minimum date), keeps the number
  of rows, and row \<open>i\<close> of the result carries that fiscal year.
\<close>

theorem add_time_dimensions_fin_year:
  assumes "i < length to_prep" and "Incdate (to_prep ! i) = Some d"
  shows "\<exists>out. add_time_dimensions cal to_prep = Inr out \<and> length out = length to_prep \<and>
           (ts_month d \<in> {1, 2, 3} \<longrightarrow> fin_year (out ! i) = Some (ts_year d - 1)) \<and>
           (ts_month d \<in> {4..12} \<longrightarrow> fin_year (out ! i) = Some (ts_year d))"
proof -
  from assms have "to_prep ! i \<in> set to_prep" by simp
  with assms(2) have dated: "\<not> list_all (\<lambda>r. Incdate r = None) to_prep"
    by (auto simp: list_all_iff)
  have "fin_year (time_dimensions cal (to_prep ! i)) = Some (qyear 3 d - 1)"
    using assms(2) by (simp add: time_dimensions_def)
  with dated assms(1) show ?thesis
    by (auto simp: add_time_dimensions_def qyear_def)
qed

theorem add_time_dimensions_fin_year_witness:
  "\<exists>out. add_time_dimensions spring_2020
      [blank_row\<lparr>Incdate := Some \<lparr>ts_year = 2020, ts_month = 3, ts_day = 27\<rparr>\<rparr>,
       blank_row\<lparr>Incdate := Some \<lparr>ts_year = 2020, ts_month = 4, ts_day = 10\<rparr>\<rparr>] = Inr out \<and>
     fin_year (out ! 0) = Some 2019 \<and> fin_year (out ! 1) = Some 2020"
proof -
  let ?t = "[blank_row\<lparr>Incdate := Some \<lparr>ts_year = 2020, ts_month = 3, ts_day = 27\<rparr>\<rparr>,
       blank_row\<lparr>Incdate := Some \<lparr>ts_year = 2020, ts_month = 4, ts_day = 10\<rparr>\<rparr>]"
  have a: "(0::nat) < length ?t" and b: "(1::nat) < length ?t" by simp_all
  have c: "Incdate (?t ! 0) = Some \<lparr>ts_year = 2020, ts_month = 3, ts_day = 27\<rparr>"
    and d: "Incdate (?t ! 1) = Some \<lparr>ts_year = 2020, ts_month = 4, ts_day = 10\<rparr>"
    by simp_all
  from add_time_dimensions_fin_year[OF a c, of spring_2020]
    add_time_dimensions_fin_year[OF b d, of spring_2020]
  show ?thesis by auto
qed

section \<open>Animal classifier: the last matching category wins\<close>









section \<open>Animal classifier: missing descriptions\<close>




section \<open>Ward normalizer\<close>

subsection \<open>The function, row by row\<close>

lemma foldl_loc_set_ward:
  "foldl (\<lambda>t (olds, new). loc_set_ward olds new t) t rules =
     map (\<lambda>r. r\<lparr>Ward := apply_renames rules (Ward r)\<rparr>) t"
proof (induction rules arbitrary: t)
  case Nil
  show ?case by simp
next
  case (Cons p rules)
  obtain olds new where p: "p = (olds, new)" by (cases p)
  show ?case
    by (simp add: p Cons.IH) (auto simp: loc_set_ward_def)
qed

lemma modify_wards_rows: "modify_wards t = map modify_row t"
  by (simp add: modify_wards_def strip_ward_def foldl_loc_set_ward modify_row_def comp_def Let_def)

lemmas ward_eval = modify_wards_rows modify_row_def ward_renames_def prefix_code sublist_code
  blank_row_def Let_def

subsection \<open>The rename table\<close>

lemma apply_renames_None [simp]: "apply_renames rules None = None"
  by (induction rules) auto

lemma apply_renames_not_old:
  "w \<notin> Some ` \<Union>(set ` fst ` set rules) \<Longrightarrow> apply_renames rules w = w"
  by (induction rules arbitrary: w) (auto simp: image_Un)

lemma apply_renames_range:
  "apply_renames rules w = w \<or> apply_renames rules w \<in> Some ` snd ` set rules"
proof (induction rules arbitrary: w)
  case Nil
  show ?case by simp
next
  case (Cons p rules)
  obtain olds new where p: "p = (olds, new)" by (cases p)
  show ?case
  proof (cases "w \<in> Some ` set olds")
    case True
    with Cons.IH[of "Some new"] show ?thesis by (auto simp: p)
  next
    case False
    with Cons.IH[of w] show ?thesis by (auto simp: p)
  qed
qed

text \<open>No name the table writes is a name the table reads, and none contains \<open>'' Ward''\<close>.\<close>

lemma new_names_not_old:
  "snd ` set ward_renames \<inter> \<Union>(set ` fst ` set ward_renames) = {}"
  by (simp add: ward_renames_def)

lemma new_names_no_Ward:
  "\<forall>w \<in> snd ` set ward_renames. \<not> sublist '' Ward'' w"
  by (simp add: ward_renames_def sublist_code prefix_code)

subsection \<open>Replacing a pattern\<close>

lemma str_replace_absent:
  "old \<noteq> [] \<Longrightarrow> \<not> sublist old s \<Longrightarrow> str_replace old new s = s"
  by (induction s) (auto simp: sublist_Cons_right)







subsection \<open>The first step\<close>




subsection \<open>Idempotence\<close>

text \<open>
  Claim C3 says that on every table a second application of \<^verbatim>\<open>modify_wards\<close> changes
  neither the ward nor the district column. Removing an occurrence of \<open>'' Ward''\<close> can
  bring a new one together: \<open>''Tipton W Wardard Green''\<close> becomes \<open>''Tipton Ward Green''\<close>
  in the first application and \<open>''Tipton Green''\<close> (with the district set to Sandwell) in
  the second.
\<close>

theorem modify_wards_not_idempotent:
  "\<not> (\<forall>t :: row list.
        map Ward (modify_wards (modify_wards t)) = map Ward (modify_wards t) \<and>
        map District (modify_wards (modify_wards t)) = map District (modify_wards t))"
proof
  assume "\<forall>t :: row list.
        map Ward (modify_wards (modify_wards t)) = map Ward (modify_wards t) \<and>
        map District (modify_wards (modify_wards t)) = map District (modify_wards t)"
  then have "map Ward (modify_wards (modify_wards
        [blank_row\<lparr>Ward := Some ''Tipton W Wardard Green'', District := Some ''Dudley''\<rparr>]))
     = map Ward (modify_wards
        [blank_row\<lparr>Ward := Some ''Tipton W Wardard Green'', District := Some ''Dudley''\<rparr>])"
    by blast
  then show False by (simp add: ward_eval)
qed

lemma modify_row_twice:
  assumes "\<forall>w. Ward r = Some w \<longrightarrow> \<not> sublist '' Ward'' (str_replace '' Ward'' '''' w)"
  shows "modify_row (modify_row r) = modify_row r"
proof -
  define w0 where "w0 = map_option (str_replace '' Ward'' '''') (Ward r)"
  define w1 where "w1 = apply_renames ward_renames w0"
  have w0: "\<forall>s. w0 = Some s \<longrightarrow> \<not> sublist '' Ward'' s"
    using assms by (auto simp: w0_def)
  have range: "w1 = w0 \<or> w1 \<in> Some ` snd ` set ward_renames"
    unfolding w1_def by (rule apply_renames_range)
  have clean: "\<forall>s. w1 = Some s \<longrightarrow> \<not> sublist '' Ward'' s"
    using range w0 new_names_no_Ward by auto
  have strip: "map_option (str_replace '' Ward'' '''') w1 = w1"
    using clean by (cases w1) (simp_all add: str_replace_absent)
  have fixed: "apply_renames ward_renames w1 = w1"
    using range
  proof
    assume "w1 = w0"
    then show ?thesis by (simp add: w1_def)
  next
    assume "w1 \<in> Some ` snd ` set ward_renames"
    with new_names_not_old have "w1 \<notin> Some ` \<Union>(set ` fst ` set ward_renames)"
      by blast
    then show ?thesis by (rule apply_renames_not_old)
  qed
  have 1: "modify_row r = r\<lparr>Ward := w1,
      District := (if w1 = Some ''Tipton Green'' then Some ''Sandwell'' else District r)\<rparr>"
    by (simp add: modify_row_def w1_def w0_def Let_def)
  show ?thesis
    unfolding 1 by (simp add: modify_row_def strip fixed Let_def)
qed

text \<open>
  Claim C3, amended. \<^verbatim>\<open>modify_wards\<close> is idempotent on every table in which no ward name
  still contains \<open>'' Ward''\<close> once the first step has removed its occurrences: applying
  the function twice to such a table yields the table that applying it once yields (the
  ward and district columns, and every other column).
\<close>

theorem modify_wards_idempotent:
  assumes "\<forall>r\<in>set t. \<forall>w. Ward r = Some w \<longrightarrow>
             \<not> sublist '' Ward'' (str_replace '' Ward'' '''' w)"
  shows "modify_wards (modify_wards t) = modify_wards t"
  using assms by (simp add: modify_wards_rows modify_row_twice)

theorem modify_wards_idempotent_witness:
  "modify_wards (modify_wards
     [blank_row\<lparr>Ward := Some ''St. Peter's Ward'', District := Some ''Wolverhampton''\<rparr>,
      blank_row\<lparr>Ward := Some ''Tipton Green'', District := Some ''Dudley''\<rparr>,
      blank_row\<lparr>Ward := Some ''Hodge Hill''\<rparr>, blank_row])
   = [blank_row\<lparr>Ward := Some ''St Peters'', District := Some ''Wolverhampton''\<rparr>,
      blank_row\<lparr>Ward := Some ''Tipton Green'', District := Some ''Sandwell''\<rparr>,
      blank_row\<lparr>Ward := Some ''Bromford & Hodge Hill''\<rparr>, blank_row]"
proof -
  let ?t = "[blank_row\<lparr>Ward := Some ''St. Peter's Ward'', District := Some ''Wolverhampton''\<rparr>,
      blank_row\<lparr>Ward := Some ''Tipton Green'', District := Some ''Dudley''\<rparr>,
      blank_row\<lparr>Ward := Some ''Hodge Hill''\<rparr>, blank_row]"
  have h: "\<forall>r\<in>set ?t. \<forall>w. Ward r = Some w \<longrightarrow>
             \<not> sublist '' Ward'' (str_replace '' Ward'' '''' w)"
    by (simp add: blank_row_def sublist_code prefix_code)
  have "modify_wards ?t =
     [blank_row\<lparr>Ward := Some ''St Peters'', District := Some ''Wolverhampton''\<rparr>,
      blank_row\<lparr>Ward := Some ''Tipton Green'', District := Some ''Sandwell''\<rparr>,
      blank_row\<lparr>Ward := Some ''Bromford & Hodge Hill''\<rparr>, blank_row]"
    by (simp add: ward_eval)
  with modify_wards_idempotent[OF h] show ?thesis by simp
qed

subsection \<open>What the function leaves alone\<close>

text \<open>
  Claim C8. \<^verbatim>\<open>modify_wards\<close> keeps the number of records and, in every record, every column
  other than ward and district. The district of a record is forced to \<open>''Sandwell''\<close> when
  its ward, as the renaming leaves it, is \<open>''Tipton Green''\<close> (which is the case when the ward
  was \<open>''Tipton Green''\<close> before), whatever the district was; the district of every other
  record is unchanged. In particular a record with ward \<open>''Bournville''\<close> and district
  \<open>''Birmingham''\<close> becomes one with ward \<open>''Bournville & Cotteridge''\<close> and district
  \<open>''Birmingham''\<close>.
\<close>

theorem modify_wards_frame:
  assumes "i < length t"
  shows "length (modify_wards t) = length t \<and>
     modify_wards t ! i =
       (t ! i)\<lparr>Ward := Ward (modify_wards t ! i), District := District (modify_wards t ! i)\<rparr> \<and>
     District (modify_wards t ! i) =
       (if Ward (modify_wards t ! i) = Some ''Tipton Green'' then Some ''Sandwell''
        else District (t ! i)) \<and>
     (Ward (t ! i) = Some ''Tipton Green'' \<longrightarrow> Ward (modify_wards t ! i) = Some ''Tipton Green'') \<and>
     (Ward (t ! i) = Some ''Bournville'' \<and> District (t ! i) = Some ''Birmingham'' \<longrightarrow>
        Ward (modify_wards t ! i) = Some ''Bournville & Cotteridge'' \<and>
        District (modify_wards t ! i) = Some ''Birmingham'')"
proof -
  have tg: "Ward (t ! i) = Some ''Tipton Green'' \<Longrightarrow>
      Ward (modify_row (t ! i)) = Some ''Tipton Green''"
    by (simp add: modify_row_def ward_renames_def prefix_code Let_def)
  have bv: "Ward (t ! i) = Some ''Bournville'' \<Longrightarrow>
      Ward (modify_row (t ! i)) = Some ''Bournville & Cotteridge''"
    by (simp add: modify_row_def ward_renames_def prefix_code Let_def)
  have "District (modify_row (t ! i)) =
       (if Ward (modify_row (t ! i)) = Some ''Tipton Green'' then Some ''Sandwell''
        else District (t ! i))"
    by (simp add: modify_row_def Let_def)
  moreover have "modify_row (t ! i) =
      (t ! i)\<lparr>Ward := Ward (modify_row (t ! i)), District := District (modify_row (t ! i))\<rparr>"
    by (simp add: modify_row_def Let_def)
  ultimately show ?thesis
    using assms tg bv by (simp add: modify_wards_rows)
qed

theorem modify_wards_frame_witness:
  "Ward (modify_wards
     [blank_row\<lparr>Ward := Some ''Bournville'', District := Some ''Birmingham''\<rparr>,
      blank_row\<lparr>Ward := Some ''Tipton Green'', District := Some ''Dudley''\<rparr>] ! 0)
     = Some ''Bournville & Cotteridge'' \<and>
   District (modify_wards
     [blank_row\<lparr>Ward := Some ''Bournville'', District := Some ''Birmingham''\<rparr>,
      blank_row\<lparr>Ward := Some ''Tipton Green'', District := Some ''Dudley''\<rparr>] ! 0)
     = Some ''Birmingham'' \<and>
   District (modify_wards
     [blank_row\<lparr>Ward := Some ''Bournville'', District := Some ''Birmingham''\<rparr>,
      blank_row\<lparr>Ward := Some ''Tipton Green'', District := Some ''Dudley''\<rparr>] ! 1)
     = Some ''Sandwell''"
proof -
  let ?t = "[blank_row\<lparr>Ward := Some ''Bournville'', District := Some ''Birmingham''\<rparr>,
      blank_row\<lparr>Ward := Some ''Tipton Green'', District := Some ''Dudley''\<rparr>]"
  have i0: "(0::nat) < length ?t" and i1: "(1::nat) < length ?t" by simp_all
  have a: "Ward (?t ! 0) = Some ''Bournville'' \<and> District (?t ! 0) = Some ''Birmingham''"
    by simp
  have b: "Ward (?t ! 1) = Some ''Tipton Green''" by simp
  from modify_wards_frame[OF i0] a
  have "Ward (modify_wards ?t ! 0) = Some ''Bournville & Cotteridge'' \<and>
        District (modify_wards ?t ! 0) = Some ''Birmingham''"
    by blast
  moreover from modify_wards_frame[OF i1] b
  have "District (modify_wards ?t ! 1) = Some ''Sandwell''"
    by presburger
  ultimately show ?thesis by blast
qed

section \<open>Text n-gram helper\<close>


lemma those_Some_iff: "those xs = Some qs \<longleftrightarrow> xs = map Some qs"
proof (induction xs arbitrary: qs)
  case Nil
  show ?case by auto
next
  case (Cons x xs)
  show ?case by (cases x) (auto simp: Cons.IH split: option.splits)
qed













section \<open>Geo-census joiner\<close>

subsection \<open>Year columns and totals through the joins\<close>

lemma distinct_fin_years: "distinct (fin_years inc)"
  by (simp add: fin_years_def)

lemma pivot_row_inv:
  assumes "p \<in> set (pivot inc)"
  shows "map fst (pv_years p) = fin_years inc \<and>
         pv_Total_Incidents p = sum_list (map snd (pv_years p))"
  using assms by (auto simp: pivot_def Let_def comp_def)

lemma join_incidents_inv:
  assumes "\<forall>p\<in>set pv. map fst (pv_years p) = years \<and>
             pv_Total_Incidents p = sum_list (map snd (pv_years p))"
    and "j \<in> set (join_incidents years pv k)"
  shows "map fst (j_years j) = years \<and>
         nan_sum (map snd (j_years j)) = nan_sum [j_Total_Incidents j]"
proof (cases "filter (\<lambda>p. pv_Ward p = kml_Ward k) pv")
  case Nil
  with assms(2) show ?thesis
    by (simp add: join_incidents_def nan_sum_def comp_def)
next
  case (Cons q qs)
  with assms(2) obtain p where p: "p \<in> set (filter (\<lambda>p. pv_Ward p = kml_Ward k) pv)"
    and j: "j = \<lparr>j_Ward = kml_Ward k, j_geometry = kml_geometry k,
                  j_District = Some (pv_District p),
                  j_years = map (\<lambda>(y, c). (y, Some c)) (pv_years p),
                  j_Total_Incidents = Some (pv_Total_Incidents p)\<rparr>"
    by (auto simp: join_incidents_def)
  from p assms(1) have "map fst (pv_years p) = years"
    and "pv_Total_Incidents p = sum_list (map snd (pv_years p))"
    by auto
  then show ?thesis
    by (simp add: j nan_sum_def comp_def case_prod_beta)
qed

lemma map_of_cells:
  "distinct (map fst xs) \<Longrightarrow>
     map (\<lambda>y. case map_of xs y of None \<Rightarrow> None | Some c \<Rightarrow> c) (map fst xs) = map snd xs"
proof (induction xs)
  case Nil
  show ?case by simp
next
  case (Cons x xs)
  obtain k v where x: "x = (k, v)" by (cases x)
  from Cons.prems have "k \<notin> fst ` set xs" and d: "distinct (map fst xs)"
    by (auto simp: x)
  then have "map (\<lambda>y. case map_of (x # xs) y of None \<Rightarrow> None | Some c \<Rightarrow> c) (map fst xs)
     = map (\<lambda>y. case map_of xs y of None \<Rightarrow> None | Some c \<Rightarrow> c) (map fst xs)"
    by (intro map_cong) (auto simp: x)
  with Cons.IH[OF d] show ?case by (simp add: x)
qed

lemma year_cells_sum:
  assumes "distinct years" and "map fst (j_years j) = years"
  shows "nan_sum (map (\<lambda>y. year_cell y j) years) = nan_sum (map snd (j_years j))"
proof -
  have "map (\<lambda>y. year_cell y j) (map fst (j_years j)) = map snd (j_years j)"
    unfolding year_cell_def using assms by (intro map_of_cells) simp
  then show ?thesis by (simp add: assms(2))
qed

lemma nan_sum_Cons: "nan_sum (x # xs) = nan_sum [x] + nan_sum xs"
  by (simp add: nan_sum_def)

lemma nan_sum_group:
  assumes "distinct years"
    and "\<forall>j\<in>set grp. map fst (j_years j) = years \<and>
           nan_sum (map snd (j_years j)) = nan_sum [j_Total_Incidents j]"
  shows "sum_list (map (\<lambda>y. nan_sum (map (year_cell y) grp)) years) =
         nan_sum (map j_Total_Incidents grp)"
  using assms(2)
proof (induction grp)
  case Nil
  show ?case by (simp add: nan_sum_def)
next
  case (Cons j grp)
  have "sum_list (map (\<lambda>y. nan_sum (map (year_cell y) (j # grp))) years) =
        sum_list (map (\<lambda>y. nan_sum [year_cell y j]) years) +
        sum_list (map (\<lambda>y. nan_sum (map (year_cell y) grp)) years)"
    by (simp add: nan_sum_Cons[of _ "map _ grp"] sum_list_addf)
  also have "sum_list (map (\<lambda>y. nan_sum [year_cell y j]) years) =
        nan_sum (map (\<lambda>y. year_cell y j) years)"
    by (simp add: nan_sum_def comp_def)
  also have "\<dots> = nan_sum [j_Total_Incidents j]"
    using year_cells_sum[OF assms(1), of j] Cons.prems by simp
  finally show ?case
    using Cons by (simp add: nan_sum_Cons[of _ "map _ grp"])
qed

lemma dissolve_inv:
  assumes "distinct years"
    and "\<forall>j\<in>set js. map fst (j_years j) = years \<and>
           nan_sum (map snd (j_years j)) = nan_sum [j_Total_Incidents j]"
    and "m \<in> set (dissolve u years js)"
  shows "map fst (w_years m) = years \<and> sum_list (map snd (w_years m)) = w_Total_Incidents m"
proof -
  from assms(3) obtain w where m: "m =
      \<lparr>w_Ward = w, w_geometry = u (map j_geometry (filter (\<lambda>j. j_Ward j = w) js)),
       w_District = str_sum (map j_District (filter (\<lambda>j. j_Ward j = w) js)),
       w_years = map (\<lambda>y. (y, nan_sum (map (year_cell y) (filter (\<lambda>j. j_Ward j = w) js)))) years,
       w_Total_Incidents = nan_sum (map j_Total_Incidents (filter (\<lambda>j. j_Ward j = w) js))\<rparr>"
    by (auto simp: dissolve_def Let_def)
  have "\<forall>j\<in>set (filter (\<lambda>j. j_Ward j = w) js). map fst (j_years j) = years \<and>
           nan_sum (map snd (j_years j)) = nan_sum [j_Total_Incidents j]"
    using assms(2) by simp
  from nan_sum_group[OF assms(1) this] show ?thesis
    by (simp add: m comp_def)
qed

lemma combine_returns:
  "2021 \<in> set (fin_years inc) \<Longrightarrow> 2022 \<in> set (fin_years inc) \<Longrightarrow>
     \<exists>out. combine_maps_w_data u kml inc census = Inr out"
  by (simp add: combine_maps_w_data_def Let_def)

lemma with_census_row:
  assumes "m \<in> set (with_census census w)"
  shows "map_years m = w_years w \<and> Total_Incidents m = w_Total_Incidents w \<and>
         inc_per_pop m = rate (map_years m) (Observation m) \<and> Observation m \<noteq> NaN \<and>
         (w_Ward w \<notin> fst ` set census \<longrightarrow> Observation m = Fin 0) \<and> map_Ward m = w_Ward w"
proof -
  from assms obtain obs where obs: "obs \<in> set (census_cells census (w_Ward w))"
    and m: "m = \<lparr>map_Ward = w_Ward w, map_geometry = w_geometry w, map_District = w_District w,
                  map_years = w_years w, Total_Incidents = w_Total_Incidents w,
                  Observation = fillna0 obs, inc_per_pop = rate (w_years w) (fillna0 obs)\<rparr>"
    by (auto simp: with_census_def)
  have "w_Ward w \<notin> fst ` set census \<Longrightarrow> filter (\<lambda>(cw, obs). cw = w_Ward w) census = []"
    by (force simp: filter_empty_conv)
  then have "w_Ward w \<notin> fst ` set census \<Longrightarrow> obs = NaN"
    using obs by (simp add: census_cells_def)
  then show ?thesis by (auto simp: m fillna0_def)
qed

lemma rename_cells:
  assumes "j \<in> set (map (\<lambda>j. j\<lparr>j_Ward := g (j_Ward j)\<rparr>) js)"
  shows "\<exists>j0\<in>set js. j_years j = j_years j0 \<and> j_Total_Incidents j = j_Total_Incidents j0"
  using assms by auto

lemma rename_if_cells:
  assumes "j \<in> set (map (\<lambda>j. if P j then j\<lparr>j_Ward := a\<rparr> else j) js)"
  shows "\<exists>j0\<in>set js. j_years j = j_years j0 \<and> j_Total_Incidents j = j_Total_Incidents j0"
proof -
  from assms obtain j0 where "j0 \<in> set js" and "j = (if P j0 then j0\<lparr>j_Ward := a\<rparr> else j0)"
    by auto
  then show ?thesis by (cases "P j0") auto
qed

lemma fix_district_cells:
  assumes "w \<in> set (map (\<lambda>m. if Q m then m\<lparr>w_District := d\<rparr> else m) ws)"
  shows "\<exists>w0\<in>set ws. w_years w = w_years w0 \<and> w_Total_Incidents w = w_Total_Incidents w0"
proof -
  from assms obtain w0 where "w0 \<in> set ws" and "w = (if Q w0 then w0\<lparr>w_District := d\<rparr> else w0)"
    by auto
  then show ?thesis by (cases "Q w0") auto
qed

lemma concat_member: "m \<in> set (concat (map f xs)) \<Longrightarrow> \<exists>x\<in>set xs. m \<in> set (f x)"
  by auto

lemma combine_rows:
  assumes "combine_maps_w_data u kml inc census = Inr out" and "m \<in> set out"
  shows "map fst (map_years m) = fin_years inc \<and>
         sum_list (map snd (map_years m)) = Total_Incidents m \<and>
         inc_per_pop m = rate (map_years m) (Observation m) \<and> Observation m \<noteq> NaN \<and>
         (map_Ward m \<notin> fst ` set census \<longrightarrow> Observation m = Fin 0)"
proof -
  let ?years = "fin_years inc"
  let ?js = "map (\<lambda>j. if sublist ''Ettingshall'' (j_Ward j) then j\<lparr>j_Ward := ''Ettingshall''\<rparr> else j)
      (map (\<lambda>j. j\<lparr>j_Ward := str_replace [CHR 0x27] '''' (j_Ward j)\<rparr>)
        (concat (map (join_incidents ?years (pivot inc)) kml)))"
  let ?fix1 = "\<lambda>m. if w_Ward m \<in> {''Castle Vale'', ''Allens Cross''}
      then m\<lparr>w_District := Some ''Birmingham''\<rparr> else m"
  let ?fix2 = "\<lambda>m. if w_Ward m = ''Ettingshall''
      then m\<lparr>w_District := Some ''Wolverhampton''\<rparr> else m"
  have out: "out = concat (map (with_census census) (map ?fix2 (map ?fix1 (dissolve u ?years ?js))))"
    using assms(1) by (simp add: combine_maps_w_data_def Let_def split: if_splits)
  have base: "map fst (j_years j) = ?years \<and>
      nan_sum (map snd (j_years j)) = nan_sum [j_Total_Incidents j]"
    if "j \<in> set (concat (map (join_incidents ?years (pivot inc)) kml))" for j
  proof -
    from that obtain k where k: "j \<in> set (join_incidents ?years (pivot inc) k)"
      by auto
    have "\<forall>p\<in>set (pivot inc). map fst (pv_years p) = ?years \<and>
             pv_Total_Incidents p = sum_list (map snd (pv_years p))"
      using pivot_row_inv by blast
    from join_incidents_inv[OF this k] show ?thesis .
  qed
  have joined: "\<forall>j\<in>set ?js. map fst (j_years j) = ?years \<and>
      nan_sum (map snd (j_years j)) = nan_sum [j_Total_Incidents j]"
  proof
    fix j assume "j \<in> set ?js"
    from rename_if_cells[OF this] obtain j1
      where j1: "j1 \<in> set (map (\<lambda>j. j\<lparr>j_Ward := str_replace [CHR 0x27] '''' (j_Ward j)\<rparr>)
        (concat (map (join_incidents ?years (pivot inc)) kml)))"
      and jj1: "j_years j = j_years j1" "j_Total_Incidents j = j_Total_Incidents j1"
      by blast
    from rename_cells[OF j1] obtain j0
      where j0: "j0 \<in> set (concat (map (join_incidents ?years (pivot inc)) kml))"
      and j1j0: "j_years j1 = j_years j0" "j_Total_Incidents j1 = j_Total_Incidents j0"
      by blast
    from jj1 j1j0 have j: "j_years j = j_years j0" "j_Total_Incidents j = j_Total_Incidents j0"
      by simp_all
    from base[OF j0] show "map fst (j_years j) = ?years \<and>
      nan_sum (map snd (j_years j)) = nan_sum [j_Total_Incidents j]"
      by (simp add: j)
  qed
  from assms(2) have "m \<in> set (concat (map (with_census census)
      (map ?fix2 (map ?fix1 (dissolve u ?years ?js)))))"
    by (simp only: out)
  from concat_member[OF this] obtain w2
    where w2: "w2 \<in> set (map ?fix2 (map ?fix1 (dissolve u ?years ?js)))"
      and m: "m \<in> set (with_census census w2)"
    by blast
  from fix_district_cells[OF w2] obtain w1
    where w1: "w1 \<in> set (map ?fix1 (dissolve u ?years ?js))"
      and w2w1: "w_years w2 = w_years w1" "w_Total_Incidents w2 = w_Total_Incidents w1"
    by blast
  from fix_district_cells[OF w1] obtain w0
    where w0: "w0 \<in> set (dissolve u ?years ?js)"
      and w1w0: "w_years w1 = w_years w0" "w_Total_Incidents w1 = w_Total_Incidents w0"
    by blast
  from dissolve_inv[OF distinct_fin_years joined w0] w2w1 w1w0
  have "map fst (w_years w2) = ?years \<and> sum_list (map snd (w_years w2)) = w_Total_Incidents w2"
    by simp
  with with_census_row[OF m] show ?thesis by simp
qed

lemma year_count_present:
  "y \<in> fst ` set cells \<Longrightarrow> \<exists>c. map_of cells y = Some c \<and> year_count y cells = c"
  by (cases "map_of cells y") (auto simp: year_count_def map_of_eq_None_iff)

subsection \<open>The example run\<close>

lemma example_years: "fin_years example_inc = [2020, 2021, 2022]"
  by code_simp

lemma combine_example:
  "combine_maps_w_data concat example_kml example_inc example_census = Inr example_map"
  by code_simp

lemma example_2021: "2021 \<in> set (fin_years example_inc)"
  by (simp add: example_years)

lemma example_2022: "2022 \<in> set (fin_years example_inc)"
  by (simp add: example_years)

subsection \<open>The claims\<close>

text \<open>
  Claim C5. Whenever the incident data has groups in the fiscal years 2021 and 2022 (the
  two columns the function selects), \<^verbatim>\<open>combine_maps_w_data\<close> returns a table, and in every
  row of it the year columns are the fiscal years of the incident data and their sum is
  the total-incidents column. The rows include the wards without incidents, whose counts
  the merge fills with zeros, and the wards made of several boundary rows (Ettingshall).
\<close>

theorem combine_total_is_sum:
  assumes "2021 \<in> set (fin_years inc_data)" and "2022 \<in> set (fin_years inc_data)"
  shows "\<exists>out. combine_maps_w_data unary_union kml_data inc_data census_data = Inr out \<and>
           (\<forall>m\<in>set out. map fst (map_years m) = fin_years inc_data \<and>
                         sum_list (map snd (map_years m)) = Total_Incidents m)"
proof -
  from combine_returns[OF assms] obtain out
    where out: "combine_maps_w_data unary_union kml_data inc_data census_data = Inr out"
    by blast
  with combine_rows[OF out] show ?thesis by blast
qed


theorem combine_total_is_sum_witness:
  "\<exists>out. combine_maps_w_data concat example_kml example_inc example_census = Inr out \<and>
     map Total_Incidents out = [2, 0, 3] \<and>
     map (\<lambda>m. sum_list (map snd (map_years m))) out = [2, 0, 3]"
proof -
  from combine_total_is_sum[OF example_2021 example_2022, of concat example_kml example_census]
  obtain out
    where out: "combine_maps_w_data concat example_kml example_inc example_census = Inr out"
      and sums: "\<forall>m\<in>set out. map fst (map_years m) = fin_years example_inc \<and>
                  sum_list (map snd (map_years m)) = Total_Incidents m"
    by blast
  from out have "out = example_map" by (simp add: combine_example)
  then have totals: "map Total_Incidents out = [2, 0, 3]" by (simp add: example_map_def)
  from sums have "map (\<lambda>m. sum_list (map snd (map_years m))) out = map Total_Incidents out"
    by simp
  with out totals show ?thesis by simp
qed




text \<open>
  Claim C10. Under the same condition the function returns also when a population is
  zero: a ward that the census data does not list has population zero after the fill,
  and in every row with population zero the rate is positive infinity when the row's
  counts of 2021 and 2022 sum to a positive number, and \<open>NaN\<close> when they sum to zero.
\<close>

theorem combine_zero_population:
  assumes "2021 \<in> set (fin_years inc_data)" and "2022 \<in> set (fin_years inc_data)"
  shows "\<exists>out. combine_maps_w_data unary_union kml_data inc_data census_data = Inr out \<and>
           (\<forall>m\<in>set out.
              (map_Ward m \<notin> fst ` set census_data \<longrightarrow> Observation m = Fin 0) \<and>
              (Observation m = Fin 0 \<longrightarrow>
                 (\<exists>c21 c22.
                    map_of (map_years m) 2021 = Some c21 \<and> map_of (map_years m) 2022 = Some c22 \<and>
                    inc_per_pop m = (if 0 < c21 + c22 then PInf else NaN))))"
proof -
  from combine_returns[OF assms] obtain out
    where out: "combine_maps_w_data unary_union kml_data inc_data census_data = Inr out"
    by blast
  have "(map_Ward m \<notin> fst ` set census_data \<longrightarrow> Observation m = Fin 0) \<and>
              (Observation m = Fin 0 \<longrightarrow>
                 (\<exists>c21 c22.
                    map_of (map_years m) 2021 = Some c21 \<and> map_of (map_years m) 2022 = Some c22 \<and>
                    inc_per_pop m = (if 0 < c21 + c22 then PInf else NaN)))"
    if m: "m \<in> set out" for m
  proof -
    from combine_rows[OF out m] have years: "map fst (map_years m) = fin_years inc_data"
      and r: "inc_per_pop m = rate (map_years m) (Observation m)"
      and absent: "map_Ward m \<notin> fst ` set census_data \<longrightarrow> Observation m = Fin 0"
      by simp_all
    from years assms have "2021 \<in> fst ` set (map_years m)" "2022 \<in> fst ` set (map_years m)"
      by (metis list.set_map)+
    then obtain c21 c22 where c: "map_of (map_years m) 2021 = Some c21"
      "year_count 2021 (map_years m) = c21" "map_of (map_years m) 2022 = Some c22"
      "year_count 2022 (map_years m) = c22"
      using year_count_present by blast
    have "Observation m = Fin 0 \<Longrightarrow> inc_per_pop m = (if 0 < c21 + c22 then PInf else NaN)"
      by (auto simp: r rate_def c fl_signed_inf_def)
    with absent c show ?thesis by blast
  qed
  with out show ?thesis by blast
qed


theorem combine_zero_population_witness:
  "\<exists>out. combine_maps_w_data concat example_kml example_inc example_census = Inr out \<and>
     Observation (out ! 0) = Fin 0 \<and> inc_per_pop (out ! 0) = PInf \<and>
     map_Ward (out ! 1) = ''Castle Vale'' \<and> Observation (out ! 1) = Fin 0 \<and>
     inc_per_pop (out ! 1) = NaN"
proof -
  from combine_zero_population[OF example_2021 example_2022, of concat example_kml example_census]
  obtain out
    where out: "combine_maps_w_data concat example_kml example_inc example_census = Inr out"
      and zero: "\<forall>m\<in>set out.
              (map_Ward m \<notin> fst ` set example_census \<longrightarrow> Observation m = Fin 0) \<and>
              (Observation m = Fin 0 \<longrightarrow>
                 (\<exists>c21 c22.
                    map_of (map_years m) 2021 = Some c21 \<and> map_of (map_years m) 2022 = Some c22 \<and>
                    inc_per_pop m = (if 0 < c21 + c22 then PInf else NaN)))"
    by blast
  from out have eq: "out = example_map" by (simp add: combine_example)
  then have r0: "out ! 0 \<in> set out" "Observation (out ! 0) = Fin 0"
    "map_of (map_years (out ! 0)) 2021 = Some 1" "map_of (map_years (out ! 0)) 2022 = Some 0"
    and r1: "out ! 1 \<in> set out" "map_Ward (out ! 1) = ''Castle Vale''"
    "map_of (map_years (out ! 1)) 2021 = Some 0" "map_of (map_years (out ! 1)) 2022 = Some 0"
    by (simp_all add: example_map_def)
  have "map_Ward (out ! 1) \<notin> fst ` set example_census"
    unfolding r1(2) by (simp add: example_census_def)
  with zero r1(1) have o1: "Observation (out ! 1) = Fin 0" by blast
  from zero r0(1,2) obtain c21 c22
    where "map_of (map_years (out ! 0)) 2021 = Some c21"
      "map_of (map_years (out ! 0)) 2022 = Some c22"
      "inc_per_pop (out ! 0) = (if 0 < c21 + c22 then PInf else NaN)"
    by blast
  with r0 have i0: "inc_per_pop (out ! 0) = PInf" by simp
  from zero r1(1) o1 obtain d21 d22
    where "map_of (map_years (out ! 1)) 2021 = Some d21"
      "map_of (map_years (out ! 1)) 2022 = Some d22"
      "inc_per_pop (out ! 1) = (if 0 < d21 + d22 then PInf else NaN)"
    by blast
  with r1 have i1: "inc_per_pop (out ! 1) = NaN" by simp
  from out r0(2) i0 r1(2) o1 i1 show ?thesis by blast
qed


end
